theory Spec2Isabelle
  imports Main "HOL-Library.Word"
begin

section \<open>The Cloudflare socket adapter of pg-cloudflare.ts\<close>

text \<open>
  The class \<^verbatim>\<open>CloudflareSocket\<close> of \<^verbatim>\<open>src/pg-cloudflare.ts\<close> wraps the socket of the
  Workers runtime in a Node \<^verbatim>\<open>Duplex\<close>. Its methods are short; what makes it subtle is
  that most of its code runs in continuations of promises. The embedding therefore
  gives one function to every synchronous stretch of code: the body of a method up
  to the point where it hands a promise to the runtime, and the body of every
  \<^verbatim>\<open>then\<close> and \<^verbatim>\<open>catch\<close> continuation. Each function takes the state before and
  returns the state after.

  What the platform answers (the socket \<^verbatim>\<open>connect\<close> returns, the writer or reader a
  stream hands out, the way a promise settles) is not computed by the class: it is
  an argument of the function that consumes it.
\<close>

subsection \<open>Values\<close>

type_synonym sock = nat
type_synonym reader = nat
type_synonym writer = nat
type_synonym bytes = "8 word list"

text \<open>
  A JavaScript value that is thrown, or that rejects a promise. \<open>TypeError\<close> is what
  the engine throws when a member of \<^verbatim>\<open>null\<close> is read, which is what the non-null
  assertions \<^verbatim>\<open>this.#cfSocket!\<close>, \<^verbatim>\<open>this.#cfReader!\<close> and \<^verbatim>\<open>this.#cfWriter!\<close> compile to.
\<close>

datatype err = TypeError | Reason string

text \<open>
  The chunk handed to \<^verbatim>\<open>write\<close>: a string or binary data. A JavaScript string is a
  sequence of 16-bit code units, and its \<^verbatim>\<open>length\<close> counts them. How many bytes a string
  becomes depends on its characters and on the encoding the caller names, and
  \<^verbatim>\<open>Buffer.from\<close> is the platform's: a string chunk carries, next to the string, the bytes
  \<^verbatim>\<open>Buffer.from(data, encoding)\<close> answers for it.
\<close>

type_synonym code_units = "16 word list"

datatype chunk = Str code_units bytes | Buf bytes

fun chunk_length :: "chunk \<Rightarrow> nat" where
  "chunk_length (Str t encoded) = length t"
| "chunk_length (Buf b) = length b"

text \<open>\<^verbatim>\<open>if (typeof data === "string") data = Buffer.from(data, encoding)\<close>.\<close>

fun to_buffer :: "chunk \<Rightarrow> bytes" where
  "to_buffer (Str t encoded) = encoded"
| "to_buffer (Buf b) = b"

text \<open>The ways \<^verbatim>\<open>reader.read()\<close> settles: \<^verbatim>\<open>{done: true}\<close>, a value, or a rejection.\<close>

datatype read_result = Read_done | Read_value bytes | Read_error err

subsection \<open>What can be observed\<close>

text \<open>The notifications the class sends with \<^verbatim>\<open>this.emit\<close>, or that \<^verbatim>\<open>Duplex\<close> sends for it.\<close>

datatype event = Connect | Error err | Close

text \<open>
  Everything the adapter does to the outside, in the order it does it: notifications,
  calls into the inherited \<^verbatim>\<open>Duplex\<close>, calls on the platform socket and its streams, and
  the invocation of a completion callback it was given.
\<close>

datatype action =
    Emit event
  | Once_connect
  | Push "bytes option"
  | Super_end
  | Sock_connect string nat bool
  | Sock_closed sock
  | Sock_startTls sock
  | Sock_close sock
  | Get_writer sock
  | Get_reader sock
  | Release_writer writer
  | Release_reader reader
  | Reader_read reader
  | Writer_write writer bytes
  | Write_callback "err option"
  | Destroy_callback "err option"

subsection \<open>State\<close>

text \<open>
  The first six fields are the fields of the class. \<open>destroyed\<close>, \<open>reading\<close> and
  \<open>ended\<close> are the part of the inherited stream state the adapter depends on.
  \<open>trace\<close> is the list of actions so far. The last five fields are the promises the
  adapter has a continuation on and that have not settled yet: the \<^verbatim>\<open>opened\<close> promise
  \<^verbatim>\<open>connect\<close> awaits, the \<^verbatim>\<open>closed\<close> promises with a handler, the reads and writes
  under way, and the \<^verbatim>\<open>close()\<close> calls of \<^verbatim>\<open>destroy\<close>, each with the error its
  continuation has captured.
\<close>

record adapter =
  ssl :: bool
  cfSocket :: "sock option"
  cfReader :: "reader option"
  cfWriter :: "writer option"
  upgrading :: bool
  upgraded :: bool
  destroyed :: bool
  reading :: bool
  ended :: bool
  trace :: "action list"
  opens_pending :: "sock list"
  closed_pending :: "sock list"
  reads_pending :: "reader list"
  writes_pending :: "writer list"
  closes_pending :: "err option list"

text \<open>A synchronous stretch of code returns or throws; the state survives a throw.\<close>

datatype outcome = Done adapter | Threw err adapter

fun state_of :: "outcome \<Rightarrow> adapter" where
  "state_of (Done s) = s"
| "state_of (Threw e s) = s"

fun and_then :: "outcome \<Rightarrow> (adapter \<Rightarrow> outcome) \<Rightarrow> outcome" where
  "and_then (Done s) f = f s"
| "and_then (Threw e s) f = Threw e s"

definition act :: "action \<Rightarrow> adapter \<Rightarrow> adapter" where
  "act a s = s\<lparr>trace := trace s @ [a]\<rparr>"

text \<open>The constructor: the field initialisers of the class, nothing pending.\<close>

definition CloudflareSocket :: "bool \<Rightarrow> adapter" where
  "CloudflareSocket b =
     \<lparr>ssl = b, cfSocket = None, cfReader = None, cfWriter = None,
      upgrading = False, upgraded = False,
      destroyed = False, reading = False, ended = False,
      trace = [],
      opens_pending = [], closed_pending = [], reads_pending = [],
      writes_pending = [], closes_pending = []\<rparr>"

subsection \<open>The inherited stream\<close>

text \<open>
  \<^verbatim>\<open>node:stream\<close> is not part of the repository. The adapter uses six things of it,
  modelled here after the documented contract of the module:
  \<^item> \<^verbatim>\<open>emit\<close> delivers a notification;
  \<^item> \<^verbatim>\<open>push\<close> hands a chunk, or the end of the stream (\<^verbatim>\<open>null\<close>), to the consumer, and
    ends the current read request, so that the stream may ask for the next one;
  \<^item> \<^verbatim>\<open>destroy(err)\<close> does nothing on a stream that is destroyed already; otherwise it
    marks the stream destroyed and calls the \<^verbatim>\<open>destroy\<close> option of the constructor
    with \<^verbatim>\<open>err\<close> and a completion callback;
  \<^item> that completion callback emits \<^verbatim>\<open>error\<close> when it is given one, then \<^verbatim>\<open>close\<close>;
  \<^item> the stream calls the \<^verbatim>\<open>read\<close> option when the consumer wants data, and not again
    before \<^verbatim>\<open>push\<close> has been called, nor after the end or the destruction;
  \<^item> the completion callback the stream passes to the \<^verbatim>\<open>write\<close> option ends the write
    when it is called with no error; called with an error, it destroys the stream
    with that error (the constructor leaves \<^verbatim>\<open>autoDestroy\<close> at its default).
\<close>

definition emit :: "event \<Rightarrow> adapter \<Rightarrow> adapter" where
  "emit e s = act (Emit e) s"

definition push :: "bytes option \<Rightarrow> adapter \<Rightarrow> adapter" where
  "push c s = act (Push c) (s\<lparr>reading := False, ended := (ended s \<or> c = None)\<rparr>)"

definition destroy_cb :: "err option \<Rightarrow> adapter \<Rightarrow> adapter" where
  "destroy_cb e s =
     (let s1 = act (Destroy_callback e) s
      in emit Close (case e of None \<Rightarrow> s1 | Some x \<Rightarrow> emit (Error x) s1))"

subsection \<open>The options of the constructor\<close>

text \<open>
  \<^verbatim>\<open>destroy: (error, cb) => ...\<close>. Without a socket the callback runs at once. With
  one, \<^verbatim>\<open>close()\<close> is called and the callback waits for its promise.
\<close>

definition destroy_impl :: "err option \<Rightarrow> adapter \<Rightarrow> adapter" where
  "destroy_impl error s =
     (case cfSocket s of
        None \<Rightarrow> destroy_cb error s
      | Some k \<Rightarrow>
          act (Sock_close k) (s\<lparr>closes_pending := closes_pending s @ [error]\<rparr>))"

text \<open>
  \<^verbatim>\<open>.then(() => cb(error)).catch((error) => cb(error))\<close>: the first \<^verbatim>\<open>error\<close> is the
  argument of \<^verbatim>\<open>destroy\<close>, the second the reason \<^verbatim>\<open>close()\<close> was rejected with.
\<close>

definition close_settled :: "err option \<Rightarrow> err option \<Rightarrow> adapter \<Rightarrow> adapter" where
  "close_settled error res s =
     (case res of
        None \<Rightarrow> destroy_cb error s
      | Some rejection \<Rightarrow> destroy_cb (Some rejection) s)"

text \<open>\<^verbatim>\<open>this.destroy(err)\<close>, the inherited method, which calls the option above.\<close>

definition destroy :: "err option \<Rightarrow> adapter \<Rightarrow> adapter" where
  "destroy e s = (if destroyed s then s else destroy_impl e (s\<lparr>destroyed := True\<rparr>))"

text \<open>\<^verbatim>\<open>read: () => this.#cfReader!.read().then(...).catch(...)\<close>, up to the promise.\<close>

definition read_impl :: "adapter \<Rightarrow> outcome" where
  "read_impl s =
     (case cfReader s of
        None \<Rightarrow> Threw TypeError s
      | Some r \<Rightarrow>
          Done (act (Reader_read r) (s\<lparr>reads_pending := reads_pending s @ [r]\<rparr>)))"

text \<open>The continuations of the read: \<^verbatim>\<open>result.done\<close>, a value, or the \<^verbatim>\<open>catch\<close>.\<close>

definition read_settled :: "read_result \<Rightarrow> adapter \<Rightarrow> adapter" where
  "read_settled res s =
     (case res of
        Read_done \<Rightarrow>
          push None (s\<lparr>cfSocket := None, cfReader := None, cfWriter := None\<rparr>)
      | Read_value v \<Rightarrow> push (Some v) s
      | Read_error e \<Rightarrow> destroy (Some e) s)"

text \<open>
  The stream asking for data: it calls \<^verbatim>\<open>read\<close> unless a request is under way, the end
  of the stream has been pushed, or the stream is destroyed. What \<^verbatim>\<open>read\<close> throws is
  thrown into the stream.
\<close>

definition demand :: "adapter \<Rightarrow> outcome" where
  "demand s =
     (if reading s \<or> ended s \<or> destroyed s then Done s
      else read_impl (s\<lparr>reading := True\<rparr>))"

text \<open>
  The completion callback of a write. It is the stream's own: the adapter calls it,
  and on an error the stream destroys itself, which runs the \<^verbatim>\<open>destroy\<close> option above.
\<close>

definition write_cb :: "err option \<Rightarrow> adapter \<Rightarrow> adapter" where
  "write_cb e s =
     (let s1 = act (Write_callback e) s
      in case e of None \<Rightarrow> s1 | Some x \<Rightarrow> destroy (Some x) s1)"

text \<open>\<^verbatim>\<open>write: (data, encoding, callback) => ...\<close>, up to the promise.\<close>

definition write_impl :: "chunk \<Rightarrow> adapter \<Rightarrow> outcome" where
  "write_impl data s =
     (if chunk_length data = 0 then Done (write_cb None s)
      else
        (case cfWriter s of
           None \<Rightarrow> Threw TypeError s
         | Some w \<Rightarrow>
             Done (act (Writer_write w (to_buffer data))
                    (s\<lparr>writes_pending := writes_pending s @ [w]\<rparr>))))"

text \<open>\<^verbatim>\<open>.then(() => callback()).catch((err) => callback(err))\<close>.\<close>

definition write_settled :: "err option \<Rightarrow> adapter \<Rightarrow> adapter" where
  "write_settled res s =
     (case res of
        None \<Rightarrow> write_cb None s
      | Some e \<Rightarrow> write_cb (Some e) s)"

subsection \<open>The methods\<close>

text \<open>\<^verbatim>\<open>end(...args)\<close>: the inherited \<^verbatim>\<open>end\<close>, then \<^verbatim>\<open>void this.#cfSocket?.close()\<close>.\<close>

definition end_impl :: "adapter \<Rightarrow> adapter" where
  "end_impl s =
     (let s1 = act Super_end s
      in case cfSocket s1 of None \<Rightarrow> s1 | Some k \<Rightarrow> act (Sock_close k) s1)"

text \<open>
  \<^verbatim>\<open>_addClosedHandler()\<close> puts a continuation on the \<^verbatim>\<open>closed\<close> promise of the socket
  that is current when it is called.
\<close>

definition addClosedHandler :: "adapter \<Rightarrow> outcome" where
  "addClosedHandler s =
     (case cfSocket s of
        None \<Rightarrow> Threw TypeError s
      | Some k \<Rightarrow>
          Done (act (Sock_closed k) (s\<lparr>closed_pending := closed_pending s @ [k]\<rparr>)))"

text \<open>Its \<^verbatim>\<open>then\<close> continuation, and its \<^verbatim>\<open>catch\<close>.\<close>

definition closed_resolved :: "adapter \<Rightarrow> adapter" where
  "closed_resolved s =
     (if \<not> upgrading s
      then destroy None (s\<lparr>cfSocket := None, cfReader := None, cfWriter := None\<rparr>)
      else s\<lparr>upgrading := False, upgraded := True\<rparr>)"

definition closed_rejected :: "err \<Rightarrow> adapter \<Rightarrow> adapter" where
  "closed_rejected e s = emit (Error e) s"

text \<open>
  \<^verbatim>\<open>this.#cfSocket.writable.getWriter()\<close> and \<^verbatim>\<open>this.#cfSocket.readable.getReader()\<close>,
  with the assignment of the result. The platform's answer is the first argument.
\<close>

definition getWriter :: "err + writer \<Rightarrow> adapter \<Rightarrow> outcome" where
  "getWriter res s =
     (case cfSocket s of
        None \<Rightarrow> Threw TypeError s
      | Some k \<Rightarrow>
          (case res of
             Inl e \<Rightarrow> Threw e (act (Get_writer k) s)
           | Inr w \<Rightarrow> Done ((act (Get_writer k) s)\<lparr>cfWriter := Some w\<rparr>)))"

definition getReader :: "err + reader \<Rightarrow> adapter \<Rightarrow> outcome" where
  "getReader res s =
     (case cfSocket s of
        None \<Rightarrow> Threw TypeError s
      | Some k \<Rightarrow>
          (case res of
             Inl e \<Rightarrow> Threw e (act (Get_reader k) s)
           | Inr r \<Rightarrow> Done ((act (Get_reader k) s)\<lparr>cfReader := Some r\<rparr>)))"

text \<open>
  The \<^verbatim>\<open>try\<close> block of \<^verbatim>\<open>connect\<close> up to \<^verbatim>\<open>await this.#cfSocket.opened\<close>. \<open>listener\<close>
  says whether a \<^verbatim>\<open>connectListener\<close> was passed; \<open>opn\<close>, \<open>wr\<close> and \<open>rd\<close> are what the
  platform answers to \<^verbatim>\<open>connect\<close>, \<^verbatim>\<open>getWriter\<close> and \<^verbatim>\<open>getReader\<close>.
\<close>

definition connect_try ::
  "nat \<Rightarrow> string \<Rightarrow> bool \<Rightarrow> err + sock \<Rightarrow> err + writer \<Rightarrow> err + reader \<Rightarrow> adapter \<Rightarrow> outcome"
where
  "connect_try port hostname listener opn wr rd s =
     (let s1 = (if listener then act Once_connect s else s);
          s2 = act (Sock_connect hostname port (ssl s1)) s1
      in case opn of
           Inl e \<Rightarrow> Threw e s2
         | Inr k \<Rightarrow>
             and_then (addClosedHandler (s2\<lparr>cfSocket := Some k\<rparr>)) (\<lambda>s3.
             and_then (getWriter wr s3) (\<lambda>s4.
             and_then (getReader rd s4) (\<lambda>s5.
               Done (s5\<lparr>opens_pending := opens_pending s5 @ [k]\<rparr>)))))"

text \<open>
  The synchronous part of the \<^verbatim>\<open>async connect\<close>: the \<^verbatim>\<open>try\<close> block, and the \<^verbatim>\<open>catch\<close>
  block for what it throws before the \<^verbatim>\<open>await\<close>.
\<close>

definition connect ::
  "nat \<Rightarrow> string \<Rightarrow> bool \<Rightarrow> err + sock \<Rightarrow> err + writer \<Rightarrow> err + reader \<Rightarrow> adapter \<Rightarrow> outcome"
where
  "connect port hostname listener opn wr rd s =
     (case connect_try port hostname listener opn wr rd s of
        Done s1 \<Rightarrow> Done s1
      | Threw e s1 \<Rightarrow> Done (emit (Error e) s1))"

text \<open>
  The rest of \<^verbatim>\<open>connect\<close>, run when the awaited \<^verbatim>\<open>opened\<close> settles: \<^verbatim>\<open>emit("connect")\<close>
  when it resolves, the \<^verbatim>\<open>catch\<close> block when it rejects.
\<close>

definition connect_resumed :: "err option \<Rightarrow> adapter \<Rightarrow> adapter" where
  "connect_resumed res s =
     (case res of None \<Rightarrow> emit Connect s | Some e \<Rightarrow> emit (Error e) s)"

text \<open>
  \<^verbatim>\<open>startTls(options)\<close>. \<open>tls\<close> is what the platform's \<^verbatim>\<open>startTls\<close> answers. The options
  are passed through to it untouched. \<^verbatim>\<open>releaseLock()\<close> is called on the writer and on the
  reader when there is one (\<^verbatim>\<open>?.\<close>); in the Streams standard it does not throw.
\<close>

definition startTls_message :: string where
  "startTls_message = ''Cannot call `startTls()` more than once on a socket''"

definition startTls :: "err + sock \<Rightarrow> err + writer \<Rightarrow> err + reader \<Rightarrow> adapter \<Rightarrow> outcome" where
  "startTls tls wr rd s =
     (if upgraded s then Done (emit (Error (Reason startTls_message)) s)
      else
        let s1 = s\<lparr>upgrading := True\<rparr>;
            s2 = (case cfWriter s1 of None \<Rightarrow> s1 | Some w \<Rightarrow> act (Release_writer w) s1);
            s3 = (case cfReader s2 of None \<Rightarrow> s2 | Some r \<Rightarrow> act (Release_reader r) s2)
        in case cfSocket s3 of
             None \<Rightarrow> Threw TypeError s3
           | Some k \<Rightarrow>
               (case tls of
                  Inl e \<Rightarrow> Threw e (act (Sock_startTls k) s3)
                | Inr k' \<Rightarrow>
                    and_then (getWriter wr ((act (Sock_startTls k) s3)\<lparr>cfSocket := Some k'\<rparr>)) (\<lambda>s4.
                    and_then (getReader rd s4) addClosedHandler)))"

text \<open>\<^verbatim>\<open>setNoDelay\<close>, \<^verbatim>\<open>setKeepAlive\<close>, \<^verbatim>\<open>ref\<close> and \<^verbatim>\<open>unref\<close> return \<^verbatim>\<open>this\<close>.\<close>

definition setNoDelay :: "adapter \<Rightarrow> adapter" where
  "setNoDelay s = s"

definition setKeepAlive :: "adapter \<Rightarrow> adapter" where
  "setKeepAlive s = s"

definition ref :: "adapter \<Rightarrow> adapter" where
  "ref s = s"

definition unref :: "adapter \<Rightarrow> adapter" where
  "unref s = s"

subsection \<open>Executions\<close>

text \<open>
  An execution of the adapter is a sequence of steps. A step is a call from the
  client library or from the inherited stream (\<open>Call_\<close>), or the settling of a promise
  the adapter has a continuation on (\<open>Settle_\<close>). A promise can only settle when it is
  pending, and it settles once: a \<open>Settle_\<close> step for a promise that is not pending
  leaves the state as it is.

  Whatever a listener or a completion callback does to the adapter, it does by calling
  its methods: the fields are private to the class. Those calls are steps of their own.
\<close>

datatype step =
    Call_connect nat string bool "err + sock" "err + writer" "err + reader"
  | Call_startTls "err + sock" "err + writer" "err + reader"
  | Call_end
  | Call_destroy "err option"
  | Call_read
  | Call_write chunk
  | Call_setNoDelay
  | Call_setKeepAlive
  | Call_ref
  | Call_unref
  | Settle_opened sock "err option"
  | Settle_closed sock "err option"
  | Settle_read reader read_result
  | Settle_write writer "err option"
  | Settle_close "err option" "err option"

fun perform :: "step \<Rightarrow> adapter \<Rightarrow> outcome" where
  "perform (Call_connect port hostname listener opn wr rd) s =
     connect port hostname listener opn wr rd s"
| "perform (Call_startTls tls wr rd) s = startTls tls wr rd s"
| "perform Call_end s = Done (end_impl s)"
| "perform (Call_destroy e) s = Done (destroy e s)"
| "perform Call_read s = demand s"
| "perform (Call_write data) s = write_impl data s"
| "perform Call_setNoDelay s = Done (setNoDelay s)"
| "perform Call_setKeepAlive s = Done (setKeepAlive s)"
| "perform Call_ref s = Done (ref s)"
| "perform Call_unref s = Done (unref s)"
| "perform (Settle_opened k res) s =
     (if k \<in> set (opens_pending s)
      then Done (connect_resumed res (s\<lparr>opens_pending := remove1 k (opens_pending s)\<rparr>))
      else Done s)"
| "perform (Settle_closed k res) s =
     (if k \<in> set (closed_pending s)
      then
        (let s1 = s\<lparr>closed_pending := remove1 k (closed_pending s)\<rparr>
         in case res of
              None \<Rightarrow> Done (closed_resolved s1)
            | Some e \<Rightarrow> Done (closed_rejected e s1))
      else Done s)"
| "perform (Settle_read r res) s =
     (if r \<in> set (reads_pending s)
      then Done (read_settled res (s\<lparr>reads_pending := remove1 r (reads_pending s)\<rparr>))
      else Done s)"
| "perform (Settle_write w res) s =
     (if w \<in> set (writes_pending s)
      then Done (write_settled res (s\<lparr>writes_pending := remove1 w (writes_pending s)\<rparr>))
      else Done s)"
| "perform (Settle_close error res) s =
     (if error \<in> set (closes_pending s)
      then Done (close_settled error res (s\<lparr>closes_pending := remove1 error (closes_pending s)\<rparr>))
      else Done s)"

text \<open>
  A run performs the steps in order. A step that throws throws into its caller; the
  adapter keeps the state it had at the throw, and the run goes on from there.
\<close>

fun run :: "step list \<Rightarrow> adapter \<Rightarrow> adapter" where
  "run [] s = s"
| "run (x # xs) s = run xs (state_of (perform x s))"

subsection \<open>Reading a trace\<close>

definition notifications :: "action list \<Rightarrow> event list" where
  "notifications t = concat (map (\<lambda>a. case a of Emit e \<Rightarrow> [e] | _ \<Rightarrow> []) t)"

definition close_requests :: "action list \<Rightarrow> sock list" where
  "close_requests t = concat (map (\<lambda>a. case a of Sock_close k \<Rightarrow> [k] | _ \<Rightarrow> []) t)"

definition reads_issued :: "action list \<Rightarrow> reader list" where
  "reads_issued t = concat (map (\<lambda>a. case a of Reader_read r \<Rightarrow> [r] | _ \<Rightarrow> []) t)"

definition writes_issued :: "action list \<Rightarrow> (writer \<times> bytes) list" where
  "writes_issued t = concat (map (\<lambda>a. case a of Writer_write w b \<Rightarrow> [(w, b)] | _ \<Rightarrow> []) t)"

subsection \<open>Invariants of an execution\<close>

text \<open>
  At most one read is pending, and the stream has a read request open while it is.
\<close>

definition single_flight :: "adapter \<Rightarrow> bool" where
  "single_flight s = (reads_pending s = [] \<or> (reading s \<and> length (reads_pending s) = 1))"

text \<open>
  The completion callback of \<^verbatim>\<open>destroy\<close> has run, or waits for one \<^verbatim>\<open>close()\<close>, at
  most once in all, and not at all before the stream is destroyed.
\<close>

definition closes_once :: "adapter \<Rightarrow> bool" where
  "closes_once s =
     (count_list (notifications (trace s)) Close + length (closes_pending s)
        \<le> (if destroyed s then 1 else 0))"

subsection \<open>Sample executions\<close>

text \<open>
  A connection that has opened; the same connection after \<^verbatim>\<open>startTls\<close>, with the
  \<^verbatim>\<open>closed\<close> promise of the plaintext socket still pending; and after that promise
  has resolved.
\<close>

definition steps_connected :: "step list" where
  "steps_connected =
     [Call_connect 5432 ''db'' True (Inr 1) (Inr 1) (Inr 1), Settle_opened 1 None]"

definition steps_upgrading :: "step list" where
  "steps_upgrading = steps_connected @ [Call_startTls (Inr 2) (Inr 2) (Inr 2)]"

definition steps_upgraded :: "step list" where
  "steps_upgraded = steps_upgrading @ [Settle_closed 1 None]"

definition sample_connected :: adapter where
  "sample_connected = run steps_connected (CloudflareSocket True)"

definition sample_upgrading :: adapter where
  "sample_upgrading = run steps_upgrading (CloudflareSocket True)"

definition sample_upgraded :: adapter where
  "sample_upgraded = run steps_upgraded (CloudflareSocket True)"

section \<open>Properties\<close>

subsection \<open>Reading a trace\<close>

lemma notifications_Nil [simp]: "notifications [] = []"
  by (simp add: notifications_def)

lemma notifications_Cons [simp]:
  "notifications (a # t) = (case a of Emit e \<Rightarrow> [e] | _ \<Rightarrow> []) @ notifications t"
  by (simp add: notifications_def)

lemma notifications_append [simp]:
  "notifications (t @ u) = notifications t @ notifications u"
  by (simp add: notifications_def)

lemma close_requests_Nil [simp]: "close_requests [] = []"
  by (simp add: close_requests_def)

lemma close_requests_Cons [simp]:
  "close_requests (a # t) = (case a of Sock_close k \<Rightarrow> [k] | _ \<Rightarrow> []) @ close_requests t"
  by (simp add: close_requests_def)

lemma close_requests_append [simp]:
  "close_requests (t @ u) = close_requests t @ close_requests u"
  by (simp add: close_requests_def)

lemma reads_issued_Nil [simp]: "reads_issued [] = []"
  by (simp add: reads_issued_def)

lemma reads_issued_Cons [simp]:
  "reads_issued (a # t) = (case a of Reader_read r \<Rightarrow> [r] | _ \<Rightarrow> []) @ reads_issued t"
  by (simp add: reads_issued_def)

lemma reads_issued_append [simp]:
  "reads_issued (t @ u) = reads_issued t @ reads_issued u"
  by (simp add: reads_issued_def)

lemma writes_issued_Nil [simp]: "writes_issued [] = []"
  by (simp add: writes_issued_def)

lemma writes_issued_Cons [simp]:
  "writes_issued (a # t) =
     (case a of Writer_write w b \<Rightarrow> [(w, b)] | _ \<Rightarrow> []) @ writes_issued t"
  by (simp add: writes_issued_def)

lemma writes_issued_append [simp]:
  "writes_issued (t @ u) = writes_issued t @ writes_issued u"
  by (simp add: writes_issued_def)

lemmas model_defs =
  act_def emit_def push_def destroy_cb_def destroy_impl_def close_settled_def destroy_def
  read_impl_def read_settled_def demand_def write_cb_def write_impl_def write_settled_def
  end_impl_def
  addClosedHandler_def closed_resolved_def closed_rejected_def getWriter_def getReader_def
  connect_try_def connect_def connect_resumed_def startTls_def
  setNoDelay_def setKeepAlive_def ref_def unref_def Let_def

subsection \<open>The sample executions, evaluated\<close>

lemma sample_connected_eq:
  "sample_connected =
     \<lparr>ssl = True, cfSocket = Some 1, cfReader = Some 1, cfWriter = Some 1,
      upgrading = False, upgraded = False,
      destroyed = False, reading = False, ended = False,
      trace = [Once_connect, Sock_connect ''db'' 5432 True, Sock_closed 1, Get_writer 1,
               Get_reader 1, Emit Connect],
      opens_pending = [], closed_pending = [1], reads_pending = [],
      writes_pending = [], closes_pending = []\<rparr>"
  by (simp add: sample_connected_def steps_connected_def CloudflareSocket_def model_defs)

lemma sample_upgrading_eq:
  "sample_upgrading =
     \<lparr>ssl = True, cfSocket = Some 2, cfReader = Some 2, cfWriter = Some 2,
      upgrading = True, upgraded = False,
      destroyed = False, reading = False, ended = False,
      trace = [Once_connect, Sock_connect ''db'' 5432 True, Sock_closed 1, Get_writer 1,
               Get_reader 1, Emit Connect, Release_writer 1, Release_reader 1,
               Sock_startTls 1, Get_writer 2, Get_reader 2, Sock_closed 2],
      opens_pending = [], closed_pending = [1, 2], reads_pending = [],
      writes_pending = [], closes_pending = []\<rparr>"
  by (simp add: sample_upgrading_def steps_upgrading_def steps_connected_def
      CloudflareSocket_def model_defs)

lemma sample_upgraded_eq:
  "sample_upgraded =
     \<lparr>ssl = True, cfSocket = Some 2, cfReader = Some 2, cfWriter = Some 2,
      upgrading = False, upgraded = True,
      destroyed = False, reading = False, ended = False,
      trace = [Once_connect, Sock_connect ''db'' 5432 True, Sock_closed 1, Get_writer 1,
               Get_reader 1, Emit Connect, Release_writer 1, Release_reader 1,
               Sock_startTls 1, Get_writer 2, Get_reader 2, Sock_closed 2],
      opens_pending = [], closed_pending = [2], reads_pending = [],
      writes_pending = [], closes_pending = []\<rparr>"
  by (simp add: sample_upgraded_def steps_upgraded_def steps_upgrading_def steps_connected_def
      CloudflareSocket_def model_defs)

subsection \<open>The write path\<close>

text \<open>
  Claim C8. A chunk of length zero makes \<^verbatim>\<open>write\<close> call the completion callback with no
  error and return: the only action is that call, no write reaches the writer, and no
  write is left pending.
\<close>

theorem write_empty_chunk:
  "chunk_length data = 0 \<Longrightarrow>
     write_impl data s = Done (act (Write_callback None) s) \<and>
     trace (state_of (write_impl data s)) = trace s @ [Write_callback None] \<and>
     writes_issued (trace (state_of (write_impl data s))) = writes_issued (trace s) \<and>
     writes_pending (state_of (write_impl data s)) = writes_pending s"
  by (simp add: write_impl_def write_cb_def act_def)

theorem write_empty_chunk_witness:
  "chunk_length (Str [] []) = 0 \<and>
   trace (state_of (write_impl (Str [] []) sample_connected)) =
     trace sample_connected @ [Write_callback None] \<and>
   writes_issued (trace (state_of (write_impl (Str [] []) sample_connected))) = []"
proof -
  have zero: "chunk_length (Str [] []) = 0" by simp
  have "writes_issued (trace sample_connected) = []"
    by (simp add: sample_connected_eq)
  with write_empty_chunk [OF zero, of sample_connected] zero show ?thesis
    by (simp add: act_def)
qed

text \<open>
  Claim C9, as the code has it. A non-empty chunk is handed to the active writer and
  the write is left pending. When the write succeeds, the completion callback is called
  with no error and nothing else happens. When it fails, the one thing the adapter does
  is call the completion callback with the error of the writer. That callback is the
  stream's, and the failure is fatal through it: the stream is destroyed with the
  error. If it was destroyed already, nothing more happens; otherwise the \<^verbatim>\<open>destroy\<close>
  option runs, which requests \<^verbatim>\<open>close()\<close> on the socket when there is one, the error and
  close notifications waiting for it to settle, and emits them at once when there is
  none.
\<close>

theorem write_failure_destroys_through_callback:
  "chunk_length data \<noteq> 0 \<Longrightarrow> cfWriter s = Some w \<Longrightarrow>
   s1 = state_of (write_impl data s) \<Longrightarrow>
   ok = state_of (perform (Settle_write w None) s1) \<Longrightarrow>
   failed = state_of (perform (Settle_write w (Some e)) s1) \<Longrightarrow>
     write_impl data s = Done s1 \<and>
     trace s1 = trace s @ [Writer_write w (to_buffer data)] \<and>
     writes_pending s1 = writes_pending s @ [w] \<and>
     trace ok = trace s1 @ [Write_callback None] \<and>
     destroyed ok = destroyed s \<and>
     closes_pending ok = closes_pending s \<and>
     destroyed failed \<and>
     (if destroyed s
      then trace failed = trace s1 @ [Write_callback (Some e)] \<and>
           closes_pending failed = closes_pending s
      else
        (case cfSocket s of
           Some k \<Rightarrow>
             trace failed = trace s1 @ [Write_callback (Some e), Sock_close k] \<and>
             closes_pending failed = closes_pending s @ [Some e]
         | None \<Rightarrow>
             trace failed =
               trace s1 @ [Write_callback (Some e), Destroy_callback (Some e),
                           Emit (Error e), Emit Close] \<and>
             closes_pending failed = closes_pending s))"
  by (simp add: write_impl_def write_settled_def write_cb_def destroy_def destroy_impl_def
      destroy_cb_def emit_def act_def Let_def split: option.splits)

theorem write_failure_destroys_through_callback_witness:
  "chunk_length (Buf [7]) \<noteq> 0 \<and> cfWriter sample_connected = Some 1 \<and>
   trace (state_of (perform (Settle_write 1 None)
            (state_of (write_impl (Buf [7]) sample_connected)))) =
     trace sample_connected @ [Writer_write 1 [7], Write_callback None] \<and>
   trace (state_of (perform (Settle_write 1 (Some (Reason ''reset'')))
            (state_of (write_impl (Buf [7]) sample_connected)))) =
     trace sample_connected @
       [Writer_write 1 [7], Write_callback (Some (Reason ''reset'')), Sock_close 1] \<and>
   closes_pending (state_of (perform (Settle_write 1 (Some (Reason ''reset'')))
            (state_of (write_impl (Buf [7]) sample_connected)))) = [Some (Reason ''reset'')]"
proof -
  have nonempty: "chunk_length (Buf [7]) \<noteq> 0" by simp
  have writer: "cfWriter sample_connected = Some 1"
    by (simp add: sample_connected_eq)
  from write_failure_destroys_through_callback
    [OF nonempty writer refl refl refl, of "Reason ''reset''"]
  show ?thesis by (simp add: model_defs sample_connected_eq)
qed

text \<open>
  The same write on the sample connection shows what a failed write does end to end. The
  adapter was not destroyed before; after the failure it is, a \<^verbatim>\<open>close()\<close> has been
  requested, and when that settles the error and the close notification are emitted.
\<close>

theorem write_failure_is_fatal_counterexample:
  "chunk_length (Buf [7]) \<noteq> 0 \<and> cfWriter sample_connected = Some 1 \<and>
   \<not> destroyed sample_connected \<and>
   destroyed
     (run [Call_write (Buf [7]), Settle_write 1 (Some (Reason ''reset''))] sample_connected) \<and>
   close_requests (trace
     (run [Call_write (Buf [7]), Settle_write 1 (Some (Reason ''reset''))] sample_connected)) =
     [1] \<and>
   notifications (trace
     (run [Call_write (Buf [7]), Settle_write 1 (Some (Reason ''reset'')),
           Settle_close (Some (Reason ''reset'')) None] sample_connected)) =
     [Connect, Error (Reason ''reset''), Close]"
  by (simp add: model_defs sample_connected_eq)

subsection \<open>Teardown\<close>

text \<open>
  Claim C10. When the \<^verbatim>\<open>destroy\<close> option runs with a socket in place, it requests
  \<^verbatim>\<open>close()\<close> and calls nothing back yet. If \<^verbatim>\<open>close()\<close> rejects, the completion callback
  gets the rejection, whatever error \<^verbatim>\<open>destroy\<close> was called with; if it resolves, the
  callback gets the error \<^verbatim>\<open>destroy\<close> was called with.
\<close>

theorem destroy_close_rejection_wins:
  "cfSocket s = Some k \<Longrightarrow> s1 = destroy_impl error s \<Longrightarrow>
     trace s1 = trace s @ [Sock_close k] \<and>
     closes_pending s1 = closes_pending s @ [error] \<and>
     destroy error (s\<lparr>destroyed := False\<rparr>) = s1\<lparr>destroyed := True\<rparr> \<and>
     trace (state_of (perform (Settle_close error (Some rejection)) s1)) =
       trace s1 @ [Destroy_callback (Some rejection), Emit (Error rejection), Emit Close] \<and>
     trace (state_of (perform (Settle_close error None) s1)) =
       trace s1 @ [Destroy_callback error] @
         (case error of None \<Rightarrow> [] | Some x \<Rightarrow> [Emit (Error x)]) @ [Emit Close]"
  by (simp add: destroy_def destroy_impl_def act_def close_settled_def destroy_cb_def emit_def
      Let_def split: option.splits)

theorem destroy_close_rejection_wins_witness:
  "cfSocket sample_connected = Some 1 \<and>
   trace (state_of (perform (Settle_close (Some (Reason ''timeout'')) (Some (Reason ''reset'')))
            (destroy_impl (Some (Reason ''timeout'')) sample_connected))) =
     trace sample_connected @
       [Sock_close 1, Destroy_callback (Some (Reason ''reset'')),
        Emit (Error (Reason ''reset'')), Emit Close]"
proof -
  have sock: "cfSocket sample_connected = Some 1"
    by (simp add: sample_connected_eq)
  from destroy_close_rejection_wins
    [OF sock refl, of "Some (Reason ''timeout'')" "Reason ''reset''"]
  show ?thesis by (simp add: model_defs sample_connected_eq)
qed

subsection \<open>The closed signal\<close>

text \<open>
  Claim C1. When the \<^verbatim>\<open>closed\<close> promise resolves while \<open>upgrading\<close> is set, the handler
  clears \<open>upgrading\<close>, sets \<open>upgraded\<close>, and does nothing else: socket, reader and
  writer are the ones \<^verbatim>\<open>startTls\<close> installed, the stream is not destroyed, and the trace
  is unchanged, so nothing was emitted and nothing was called.
\<close>

theorem closed_while_upgrading:
  "upgrading s \<Longrightarrow>
     closed_resolved s = s\<lparr>upgrading := False, upgraded := True\<rparr> \<and>
     \<not> upgrading (closed_resolved s) \<and> upgraded (closed_resolved s) \<and>
     cfSocket (closed_resolved s) = cfSocket s \<and>
     cfReader (closed_resolved s) = cfReader s \<and>
     cfWriter (closed_resolved s) = cfWriter s \<and>
     destroyed (closed_resolved s) = destroyed s \<and>
     trace (closed_resolved s) = trace s"
  by (simp add: closed_resolved_def)

theorem closed_while_upgrading_witness:
  "upgrading sample_upgrading \<and>
   \<not> upgrading (closed_resolved sample_upgrading) \<and>
   upgraded (closed_resolved sample_upgrading) \<and>
   cfSocket (closed_resolved sample_upgrading) = Some 2 \<and>
   \<not> destroyed (closed_resolved sample_upgrading) \<and>
   notifications (trace (closed_resolved sample_upgrading)) = [Connect]"
proof -
  have up: "upgrading sample_upgrading"
    by (simp add: sample_upgrading_eq)
  from closed_while_upgrading [OF up]
  show ?thesis by (simp add: model_defs sample_upgrading_eq)
qed

lemma length_remove1_mem: "x \<in> set xs \<Longrightarrow> Suc (length (remove1 x xs)) = length xs"
  by (induction xs) auto

lemma closes_once_settle:
  assumes "closes_once s" and "error \<in> set (closes_pending s)"
  shows "closes_once
           (close_settled error res (s\<lparr>closes_pending := remove1 error (closes_pending s)\<rparr>))"
proof -
  let ?s1 = "s\<lparr>closes_pending := remove1 error (closes_pending s)\<rparr>"
  let ?given = "case res of None \<Rightarrow> error | Some r \<Rightarrow> Some r"
  from assms(2)
  have "Suc (length (remove1 error (closes_pending s))) = length (closes_pending s)"
    by (rule length_remove1_mem)
  moreover have "trace (close_settled error res ?s1) =
      trace s @ [Destroy_callback ?given] @
        (case ?given of None \<Rightarrow> [] | Some x \<Rightarrow> [Emit (Error x)]) @ [Emit Close]"
    by (simp add: model_defs split: option.splits)
  moreover have "closes_pending (close_settled error res ?s1) = remove1 error (closes_pending s)"
    and "destroyed (close_settled error res ?s1) = destroyed s"
    by (simp_all add: model_defs split: option.splits)
  ultimately show ?thesis
    using assms(1) by (simp add: closes_once_def split: option.splits)
qed

lemma closes_once_perform: "closes_once s \<Longrightarrow> closes_once (state_of (perform x s))"
proof (cases x)
  case (Settle_close error res)
  assume "closes_once s"
  with Settle_close show ?thesis
    by (simp add: closes_once_settle)
qed (auto simp add: closes_once_def model_defs
      split: option.splits sum.splits read_result.splits if_splits)

lemma closes_once_run: "closes_once s \<Longrightarrow> closes_once (run xs s)"
  by (induction xs arbitrary: s) (simp_all add: closes_once_perform)

lemma closes_once_init: "closes_once (CloudflareSocket b)"
  by (simp add: closes_once_def CloudflareSocket_def)

text \<open>
  Claim C2. When the \<^verbatim>\<open>closed\<close> promise resolves while \<open>upgrading\<close> is clear, the handler
  sets socket, reader and writer to \<^verbatim>\<open>null\<close> and calls \<^verbatim>\<open>destroy()\<close>, without requesting a
  \<^verbatim>\<open>close()\<close>. The stream is destroyed afterwards. On an adapter that was not destroyed
  before, in any execution, the handler adds exactly the \<^verbatim>\<open>close\<close> notification, and it
  is the only \<^verbatim>\<open>close\<close> notification of the execution so far. On an adapter that was
  destroyed before, \<^verbatim>\<open>destroy()\<close> does nothing more: the notification is that of the
  earlier \<^verbatim>\<open>destroy\<close>.
\<close>

theorem closed_while_not_upgrading:
  "s = run xs (CloudflareSocket b) \<Longrightarrow> \<not> upgrading s \<Longrightarrow> s' = closed_resolved s \<Longrightarrow>
     cfSocket s' = None \<and> cfReader s' = None \<and> cfWriter s' = None \<and>
     destroyed s' \<and>
     close_requests (trace s') = close_requests (trace s) \<and>
     (if destroyed s
      then notifications (trace s') = notifications (trace s)
      else notifications (trace s') = notifications (trace s) @ [Close] \<and>
           count_list (notifications (trace s')) Close = 1)"
proof -
  assume s: "s = run xs (CloudflareSocket b)" and up: "\<not> upgrading s"
    and s': "s' = closed_resolved s"
  have "closes_once s"
    unfolding s by (rule closes_once_run [OF closes_once_init])
  then have fresh: "\<not> destroyed s \<Longrightarrow> count_list (notifications (trace s)) Close = 0"
    by (simp add: closes_once_def)
  from up fresh show ?thesis
    unfolding s' by (simp add: model_defs)
qed

theorem closed_while_not_upgrading_witness:
  "\<not> upgrading sample_connected \<and> \<not> destroyed sample_connected \<and>
   cfSocket (closed_resolved sample_connected) = None \<and>
   cfReader (closed_resolved sample_connected) = None \<and>
   cfWriter (closed_resolved sample_connected) = None \<and>
   destroyed (closed_resolved sample_connected) \<and>
   notifications (trace (closed_resolved sample_connected)) = [Connect, Close]"
proof -
  have up: "\<not> upgrading sample_connected"
    by (simp add: sample_connected_eq)
  from closed_while_not_upgrading [OF sample_connected_def up refl]
  show ?thesis by (simp add: model_defs sample_connected_eq)
qed

subsection \<open>The TLS upgrade\<close>

text \<open>
  Claim C3. A call of \<^verbatim>\<open>startTls\<close> while the first upgrade is under way (\<open>upgrading\<close>
  set, \<open>upgraded\<close> not yet) should be refused with an error notification and change
  nothing. The guard of \<^verbatim>\<open>startTls\<close> tests \<open>upgraded\<close> only, so the call goes through:
  in the sample execution it releases writer and reader, upgrades the socket again and
  installs socket, reader and writer 3 when the platform grants the upgrade, and throws
  what the platform throws when it does not. In neither case is anything emitted.
\<close>

theorem startTls_while_upgrading_goes_through:
  "upgrading sample_upgrading \<and> \<not> upgraded sample_upgrading \<and>
   cfSocket sample_upgrading = Some 2 \<and>
   (case startTls (Inr 3) (Inr 3) (Inr 3) sample_upgrading of
      Done s' \<Rightarrow>
        notifications (trace s') = notifications (trace sample_upgrading) \<and>
        cfSocket s' = Some 3 \<and> cfReader s' = Some 3 \<and> cfWriter s' = Some 3 \<and>
        trace s' = trace sample_upgrading @
          [Release_writer 2, Release_reader 2, Sock_startTls 2,
           Get_writer 3, Get_reader 3, Sock_closed 3]
    | Threw e s' \<Rightarrow> False) \<and>
   (case startTls (Inl TypeError) (Inr 3) (Inr 3) sample_upgrading of
      Done s' \<Rightarrow> False
    | Threw e s' \<Rightarrow>
        e = TypeError \<and>
        notifications (trace s') = notifications (trace sample_upgrading) \<and>
        trace s' = trace sample_upgrading @
          [Release_writer 2, Release_reader 2, Sock_startTls 2])"
  by (simp add: sample_upgrading_eq model_defs)

lemma upgraded_perform: "upgraded s \<Longrightarrow> upgraded (state_of (perform x s))"
  by (cases x) (simp_all add: model_defs split: option.splits sum.splits read_result.splits)

lemma upgraded_run: "upgraded s \<Longrightarrow> upgraded (run xs s)"
  by (induction xs arbitrary: s) (simp_all add: upgraded_perform)

text \<open>
  Claim C4. Once \<open>upgraded\<close> is set it stays set, whatever step comes next and however
  many. On an adapter with \<open>upgraded\<close> set, \<^verbatim>\<open>startTls\<close> returns after emitting the error
  notification: the state differs in the trace only, which has that one notification
  more, so socket, reader and writer are those of the first upgrade.
\<close>

theorem upgraded_is_monotonic:
  "upgraded s \<Longrightarrow>
     upgraded (state_of (perform x s)) \<and> upgraded (run xs s) \<and>
     startTls tls wr rd s =
       Done (s\<lparr>trace := trace s @ [Emit (Error (Reason startTls_message))]\<rparr>)"
  by (simp add: upgraded_perform upgraded_run startTls_def emit_def act_def)

theorem upgraded_is_monotonic_witness:
  "upgraded sample_upgraded \<and>
   upgraded (run [Call_startTls (Inr 3) (Inr 3) (Inr 3), Call_end] sample_upgraded) \<and>
   cfSocket (state_of (startTls (Inr 3) (Inr 3) (Inr 3) sample_upgraded)) = Some 2 \<and>
   notifications (trace (state_of (startTls (Inr 3) (Inr 3) (Inr 3) sample_upgraded))) =
     [Connect, Error (Reason startTls_message)]"
proof -
  have up: "upgraded sample_upgraded"
    by (simp add: sample_upgraded_eq)
  from upgraded_is_monotonic
    [OF up, of Call_end "[Call_startTls (Inr 3) (Inr 3) (Inr 3), Call_end]"
       "Inr 3" "Inr 3" "Inr 3"]
  show ?thesis by (simp add: model_defs sample_upgraded_eq)
qed

subsection \<open>Connecting\<close>

text \<open>
  Claim C5. The synchronous part of \<^verbatim>\<open>connect\<close> always returns: what its \<^verbatim>\<open>try\<close> block
  throws is caught. If the platform refuses the socket, the writer or the reader, the
  call emits the error, awaits nothing and so never emits \<^verbatim>\<open>connect\<close>. Otherwise it
  emits nothing before the \<^verbatim>\<open>opened\<close> promise settles; when that promise resolves it
  emits \<^verbatim>\<open>connect\<close>, once, and when it rejects it emits the error instead.
\<close>

theorem connect_notifies_after_opened:
  "\<exists>s1. connect port hostname listener opn wr rd s = Done s1 \<and>
     (case (opn, wr, rd) of
        (Inr k, Inr w, Inr r) \<Rightarrow>
          notifications (trace s1) = notifications (trace s) \<and>
          opens_pending s1 = opens_pending s @ [k] \<and>
          notifications (trace (state_of (perform (Settle_opened k None) s1))) =
            notifications (trace s) @ [Connect] \<and>
          (\<forall>e. notifications (trace (state_of (perform (Settle_opened k (Some e)) s1))) =
            notifications (trace s) @ [Error e])
      | (Inr k, Inr w, Inl e) \<Rightarrow>
          notifications (trace s1) = notifications (trace s) @ [Error e] \<and>
          opens_pending s1 = opens_pending s
      | (Inr k, Inl e, _) \<Rightarrow>
          notifications (trace s1) = notifications (trace s) @ [Error e] \<and>
          opens_pending s1 = opens_pending s
      | (Inl e, _, _) \<Rightarrow>
          notifications (trace s1) = notifications (trace s) @ [Error e] \<and>
          opens_pending s1 = opens_pending s)"
  by (simp add: connect_def connect_try_def addClosedHandler_def getWriter_def getReader_def
      connect_resumed_def act_def emit_def Let_def split: sum.splits)

theorem connect_notifies_after_opened_witness:
  "notifications (trace (state_of
     (connect 5432 ''db'' True (Inr 1) (Inr 1) (Inr 1) (CloudflareSocket True)))) = [] \<and>
   notifications (trace (state_of (perform (Settle_opened 1 None) (state_of
     (connect 5432 ''db'' True (Inr 1) (Inr 1) (Inr 1) (CloudflareSocket True)))))) = [Connect] \<and>
   notifications (trace (state_of
     (connect 5432 ''db'' True (Inl (Reason ''unreachable'')) (Inr 1) (Inr 1)
        (CloudflareSocket True)))) = [Error (Reason ''unreachable'')]"
  using
    connect_notifies_after_opened
      [of 5432 "''db''" True "Inr 1" "Inr 1" "Inr 1" "CloudflareSocket True"]
    connect_notifies_after_opened
      [of 5432 "''db''" True "Inl (Reason ''unreachable'')" "Inr 1" "Inr 1" "CloudflareSocket True"]
  by (simp add: CloudflareSocket_def model_defs)

subsection \<open>The read pump\<close>

text \<open>
  Claim C6. When a read settles with the end of the stream, the handler clears socket,
  reader and writer first and pushes the end of the stream after: the push runs on
  the state with the three references cleared, and it is the one action of the handler.
  A \<^verbatim>\<open>destroy\<close> after that finds no socket: the \<^verbatim>\<open>destroy\<close> option calls its callback
  at once, and whether the stream was destroyed before or not, no \<^verbatim>\<open>close()\<close> is
  requested and none is left pending.
\<close>

theorem end_of_stream_forgets_transport:
  "s' = read_settled Read_done s \<Longrightarrow>
     s' = push None (s\<lparr>cfSocket := None, cfReader := None, cfWriter := None\<rparr>) \<and>
     trace s' = trace s @ [Push None] \<and>
     cfSocket s' = None \<and> cfReader s' = None \<and> cfWriter s' = None \<and>
     destroy_impl e s' = destroy_cb e s' \<and>
     destroy e s' = (if destroyed s then s' else destroy_cb e (s'\<lparr>destroyed := True\<rparr>)) \<and>
     close_requests (trace (destroy e s')) = close_requests (trace s) \<and>
     closes_pending (destroy e s') = closes_pending s"
  by (simp add: read_settled_def push_def act_def destroy_def destroy_impl_def destroy_cb_def
      emit_def Let_def split: option.splits)

theorem end_of_stream_forgets_transport_witness:
  "cfSocket (read_settled Read_done sample_connected) = None \<and>
   trace (read_settled Read_done sample_connected) = trace sample_connected @ [Push None] \<and>
   trace (destroy None (read_settled Read_done sample_connected)) =
     trace sample_connected @ [Push None, Destroy_callback None, Emit Close] \<and>
   close_requests (trace (destroy None (read_settled Read_done sample_connected))) = []"
  using end_of_stream_forgets_transport [OF refl, of sample_connected None]
  by (simp add: model_defs sample_connected_eq)

lemma run_append: "run (xs @ ys) s = run ys (run xs s)"
  by (induction xs arbitrary: s) simp_all

lemma remove1_single: "r \<in> set xs \<Longrightarrow> length xs = 1 \<Longrightarrow> remove1 r xs = []"
  by (cases xs) auto

lemma single_flight_perform: "single_flight s \<Longrightarrow> single_flight (state_of (perform x s))"
  by (cases x)
     (auto simp add: single_flight_def model_defs remove1_single
           split: option.splits sum.splits read_result.splits)

lemma single_flight_run: "single_flight s \<Longrightarrow> single_flight (run xs s)"
  by (induction xs arbitrary: s) (simp_all add: single_flight_perform)

lemma single_flight_init: "single_flight (CloudflareSocket b)"
  by (simp add: single_flight_def CloudflareSocket_def)

lemma reads_issued_perform:
  "reads_issued (trace (state_of (perform x s))) = reads_issued (trace s) \<or>
   (x = Call_read \<and> \<not> reading s \<and>
    (\<exists>r. cfReader s = Some r \<and>
         reads_issued (trace (state_of (perform x s))) = reads_issued (trace s) @ [r] \<and>
         reads_pending (state_of (perform x s)) = reads_pending s @ [r]))"
  by (cases x)
     (auto simp add: model_defs split: option.splits sum.splits read_result.splits)

text \<open>
  Claim C7. In every state an execution from the constructor reaches, at most one read
  is pending. A step issues no read, unless it is the stream's request for data made
  while no read is pending: then it issues exactly one read, on the current reader,
  and that read is the one pending afterwards.
\<close>

theorem one_read_in_flight:
  "s = run xs (CloudflareSocket b) \<Longrightarrow> s' = state_of (perform x s) \<Longrightarrow>
     length (reads_pending s) \<le> 1 \<and>
     (reads_issued (trace s') = reads_issued (trace s) \<or>
      (x = Call_read \<and> reads_pending s = [] \<and>
       (\<exists>r. cfReader s = Some r \<and>
            reads_issued (trace s') = reads_issued (trace s) @ [r] \<and>
            reads_pending s' = [r])))"
proof -
  assume s: "s = run xs (CloudflareSocket b)" and s': "s' = state_of (perform x s)"
  have sf: "single_flight s"
    unfolding s by (rule single_flight_run [OF single_flight_init])
  then have len: "length (reads_pending s) \<le> 1"
    by (auto simp add: single_flight_def)
  from sf have idle: "\<not> reading s \<Longrightarrow> reads_pending s = []"
    by (auto simp add: single_flight_def)
  from reads_issued_perform [of x s] idle len show ?thesis
    unfolding s' by auto
qed

theorem one_read_in_flight_witness:
  "length (reads_pending (run [Call_read, Call_read] sample_connected)) \<le> 1 \<and>
   reads_issued (trace (run [Call_read] sample_connected)) = [1] \<and>
   reads_issued (trace (run [Call_read, Call_read] sample_connected)) = [1] \<and>
   reads_issued (trace
     (run [Call_read, Settle_read 1 (Read_value [7]), Call_read] sample_connected)) = [1, 1]"
proof -
  have reach: "run [Call_read, Call_read] sample_connected =
      run (steps_connected @ [Call_read, Call_read]) (CloudflareSocket True)"
    by (simp add: run_append sample_connected_def)
  from one_read_in_flight [OF reach refl, of Call_read]
  show ?thesis by (simp add: model_defs sample_connected_eq)
qed

end
